theory Spec2Isabelle
  imports Main "HOL-Library.Sublist"
begin

section \<open>PodcastHub backend: data model\<close>

text \<open>
  The handlers of \<^verbatim>\<open>backend/server.py\<close> and \<^verbatim>\<open>backend/views.py\<close> are embedded as
  functions over an explicit world: the three MongoDB collections are lists of typed
  records in insertion order (so \<^verbatim>\<open>find_one\<close> is the first match and \<^verbatim>\<open>to_list(n)\<close>
  the first \<open>n\<close> matches), the upload directory is a map from file names to contents.
  An \<^verbatim>\<open>HTTPException\<close> is the left summand of the result, carrying status and detail.
  The clock (\<^verbatim>\<open>datetime.utcnow()\<close>) and the random identifiers (\<^verbatim>\<open>uuid.uuid4()\<close>) are
  arguments. A \<^verbatim>\<open>datetime\<close> is its number of microseconds since the epoch and a
  \<^verbatim>\<open>timedelta\<close> a number of microseconds, the resolution of both types. Strings are
  byte strings.
\<close>

type_synonym http_error = "nat \<times> string"

datatype py_exception = JSONDecodeError | AttributeError | OverflowError

datatype json = JNull | JBool bool | JNum int | JStr string | JArr "json list"
  | JObj "(string \<times> json) list"

record User =
  u_id :: string
  u_email :: string
  u_username :: string
  u_password_hash :: string
  u_role :: string
  u_created_at :: int

record UserCreate =
  uc_email :: string
  uc_username :: string
  uc_password :: string
  uc_role :: string

record UserLogin =
  ul_email :: string
  ul_password :: string

record UserResponse =
  ur_id :: string
  ur_email :: string
  ur_username :: string
  ur_role :: string
  ur_created_at :: int

record Podcast =
  p_id :: string
  p_title :: string
  p_description :: string
  p_creator_id :: string
  p_cover_image :: "string option"
  p_category :: string
  p_created_at :: int

record PodcastCreate =
  pc_title :: string
  pc_description :: string
  pc_category :: string

record Episode =
  e_id :: string
  e_podcast_id :: string
  e_title :: string
  e_description :: string
  e_audio_file :: string
  e_duration :: "int option"
  e_created_at :: int

record world =
  db_users :: "User list"
  db_podcasts :: "Podcast list"
  db_episodes :: "Episode list"
  upload_dir :: "string \<rightharpoonup> string"

text \<open>\<^verbatim>\<open>collection.find_one(filter)\<close>: the first document that satisfies the filter.\<close>

definition find_one :: "('a \<Rightarrow> bool) \<Rightarrow> 'a list \<Rightarrow> 'a option" where
  "find_one flt docs = find flt docs"

text \<open>\<^verbatim>\<open>collection.find(filter).to_list(n)\<close>: the first \<open>n\<close> documents that satisfy it.\<close>

definition find_to_list :: "('a \<Rightarrow> bool) \<Rightarrow> nat \<Rightarrow> 'a list \<Rightarrow> 'a list" where
  "find_to_list flt n docs = take n (filter flt docs)"

definition user_response :: "User \<Rightarrow> UserResponse" where
  "user_response u = \<lparr>ur_id = u_id u, ur_email = u_email u, ur_username = u_username u,
     ur_role = u_role u, ur_created_at = u_created_at u\<rparr>"

section \<open>Token service\<close>

definition SECRET_KEY :: string where
  "SECRET_KEY = ''your-secret-key-change-in-production''"

definition ACCESS_TOKEN_EXPIRE_MINUTES :: int where
  "ACCESS_TOKEN_EXPIRE_MINUTES = 30"

text \<open>\<^verbatim>\<open>timedelta(minutes=n)\<close>, in microseconds.\<close>

definition minutes :: "int \<Rightarrow> int" where
  "minutes n = 60 * 1000000 * n"

text \<open>
  The instants a \<^verbatim>\<open>datetime\<close> can hold run from \<^verbatim>\<open>datetime.min\<close>, the start of year 1,
  to \<^verbatim>\<open>datetime.max\<close>, the last microsecond of year 9999. Adding a \<^verbatim>\<open>timedelta\<close> that
  leads outside raises \<^verbatim>\<open>OverflowError\<close>.
\<close>

definition DATETIME_MIN :: int where
  "DATETIME_MIN = - 62135596800000000"

definition DATETIME_MAX :: int where
  "DATETIME_MAX = 253402300799999999"

definition datetime_in_range :: "int \<Rightarrow> bool" where
  "datetime_in_range t = (DATETIME_MIN \<le> t \<and> t \<le> DATETIME_MAX)"

definition datetime_add :: "int \<Rightarrow> int \<Rightarrow> py_exception + int" where
  "datetime_add t delta = (if datetime_in_range (t + delta) then Inr (t + delta) else Inl OverflowError)"

text \<open>
  \<^verbatim>\<open>timegm(t.utctimetuple())\<close>: the whole seconds since the epoch, the microseconds of
  the instant dropped. It is how \<^verbatim>\<open>jwt.encode\<close> stores a \<^verbatim>\<open>datetime\<close> in the \<^verbatim>\<open>exp\<close>
  field, and the second in which \<^verbatim>\<open>jwt.decode\<close> reads the clock lies.
\<close>

definition timegm :: "int \<Rightarrow> int" where
  "timegm t = t div 1000000"

text \<open>
  The PyJWT library, idealised. A bearer credential is either a string that does not
  parse as a token, or a payload together with the key that signed it; the HS256
  signature verifies exactly when the verifying key is the signing key. \<^verbatim>\<open>jwt.decode\<close>
  checks the signature first and then the \<^verbatim>\<open>exp\<close> field when there is one: the token
  is expired when \<^verbatim>\<open>exp <= now\<close>, with no leeway, where \<^verbatim>\<open>exp\<close> is in whole seconds and
  \<open>now\<close> is the clock at verification; an \<^verbatim>\<open>exp\<close> that is not an integer is a decoding
  error. All three are subclasses of \<^verbatim>\<open>jwt.PyJWTError\<close>.
\<close>

datatype token = Malformed string | Signed "string \<rightharpoonup> json" string

datatype PyJWTError = DecodeError | InvalidSignatureError | ExpiredSignatureError

definition jwt_encode :: "(string \<rightharpoonup> json) \<Rightarrow> string \<Rightarrow> token" where
  "jwt_encode payload key = Signed payload key"

definition jwt_decode :: "token \<Rightarrow> string \<Rightarrow> int \<Rightarrow> PyJWTError + (string \<rightharpoonup> json)" where
  "jwt_decode tok key now =
     (case tok of
        Malformed s \<Rightarrow> Inl DecodeError
      | Signed payload k \<Rightarrow>
          if k \<noteq> key then Inl InvalidSignatureError
          else (case payload ''exp'' of
                  None \<Rightarrow> Inr payload
                | Some (JNum exp) \<Rightarrow>
                    if exp \<le> timegm now then Inl ExpiredSignatureError else Inr payload
                | Some other \<Rightarrow> Inl DecodeError))"

text \<open>The expiry a token carries, in whole seconds since the epoch, when it carries one.\<close>

definition expiry_of :: "token \<Rightarrow> int option" where
  "expiry_of tok =
     (case tok of
        Malformed s \<Rightarrow> None
      | Signed payload k \<Rightarrow> (case payload ''exp'' of Some (JNum exp) \<Rightarrow> Some exp | _ \<Rightarrow> None))"

text \<open>
  \<^verbatim>\<open>create_access_token(data, expires_delta=None)\<close>. The test \<^verbatim>\<open>if expires_delta:\<close> is
  Python truthiness: \<^verbatim>\<open>None\<close> and \<^verbatim>\<open>timedelta(0)\<close> both take the \<^verbatim>\<open>else\<close> branch.
\<close>

definition create_access_token :: "(string \<rightharpoonup> json) \<Rightarrow> int option \<Rightarrow> int
    \<Rightarrow> py_exception + token" where
  "create_access_token data expires_delta utcnow =
     (let to_encode = data
      in case (case expires_delta of
                 Some d \<Rightarrow> if d \<noteq> 0 then datetime_add utcnow d
                           else datetime_add utcnow (minutes 15)
               | None \<Rightarrow> datetime_add utcnow (minutes 15)) of
           Inl err \<Rightarrow> Inl err
         | Inr expire \<Rightarrow>
             (let to_encode = to_encode(''exp'' \<mapsto> JNum (timegm expire))
              in Inr (jwt_encode to_encode SECRET_KEY)))"

text \<open>
  \<^verbatim>\<open>get_current_user(credentials)\<close>. The \<^verbatim>\<open>HTTPException\<close> raised inside the \<^verbatim>\<open>try\<close>
  is not a \<^verbatim>\<open>PyJWTError\<close> and leaves the handler as it is. A \<^verbatim>\<open>sub\<close> that is not a
  string matches no stored email.
\<close>

definition get_current_user :: "world \<Rightarrow> token \<Rightarrow> int \<Rightarrow> http_error + User" where
  "get_current_user w credentials now =
     (case jwt_decode credentials SECRET_KEY now of
        Inl err \<Rightarrow> Inl (401, ''Invalid authentication credentials'')
      | Inr payload \<Rightarrow>
          (case payload ''sub'' of
             None \<Rightarrow> Inl (401, ''Invalid authentication credentials'')
           | Some JNull \<Rightarrow> Inl (401, ''Invalid authentication credentials'')
           | Some sub \<Rightarrow>
               (case find_one (\<lambda>u. JStr (u_email u) = sub) (db_users w) of
                  None \<Rightarrow> Inl (401, ''User not found'')
                | Some user \<Rightarrow> Inr user)))"

section \<open>Credential store\<close>

text \<open>
  \<^verbatim>\<open>pwd_context = CryptContext(schemes=["bcrypt"])\<close> is the passlib library; the model
  takes it as an argument. Hashing draws a random salt, which is an argument of
  \<open>cc_hash\<close>. Hashing and verification answer \<open>None\<close> where passlib raises (a password
  it refuses, such as one with a NUL byte; a stored string that is no bcrypt digest),
  which the framework reports as status 500.
\<close>

record CryptContext =
  cc_hash :: "string \<Rightarrow> string \<Rightarrow> string option"
  cc_verify :: "string \<Rightarrow> string \<Rightarrow> bool option"

definition verify_password :: "CryptContext \<Rightarrow> string \<Rightarrow> string \<Rightarrow> bool option" where
  "verify_password pwd_context plain_password hashed_password =
     cc_verify pwd_context plain_password hashed_password"

definition get_password_hash :: "CryptContext \<Rightarrow> string \<Rightarrow> string \<Rightarrow> string option" where
  "get_password_hash pwd_context salt password = cc_hash pwd_context salt password"

section \<open>Authentication routes\<close>

text \<open>\<^verbatim>\<open>POST /api/auth/register\<close>. The new user's id and the clock are arguments.\<close>

definition register :: "CryptContext \<Rightarrow> string \<Rightarrow> string \<Rightarrow> int \<Rightarrow> UserCreate \<Rightarrow> world
    \<Rightarrow> (http_error + UserResponse) \<times> world" where
  "register pwd_context salt uuid4 utcnow user_data w =
     (case find_one (\<lambda>u. u_email u = uc_email user_data) (db_users w) of
        Some existing_user \<Rightarrow> (Inl (400, ''Email already registered''), w)
      | None \<Rightarrow>
          (case get_password_hash pwd_context salt (uc_password user_data) of
             None \<Rightarrow> (Inl (500, ''Internal Server Error''), w)
           | Some hashed_password \<Rightarrow>
               (let user = \<lparr>u_id = uuid4, u_email = uc_email user_data,
                            u_username = uc_username user_data,
                            u_password_hash = hashed_password,
                            u_role = uc_role user_data, u_created_at = utcnow\<rparr>
                in (Inr (user_response user), w\<lparr>db_users := db_users w @ [user]\<rparr>))))"

record LoginResponse =
  access_token :: token
  token_type :: string
  login_user :: UserResponse

text \<open>
  \<^verbatim>\<open>POST /api/auth/login\<close>. It writes nothing, so only the response is returned. An
  exception that leaves the handler is answered with status 500.
\<close>

definition login :: "CryptContext \<Rightarrow> int \<Rightarrow> UserLogin \<Rightarrow> world \<Rightarrow> http_error + LoginResponse" where
  "login pwd_context utcnow user_data w =
     (case find_one (\<lambda>u. u_email u = ul_email user_data) (db_users w) of
        None \<Rightarrow> Inl (401, ''Incorrect email or password'')
      | Some user \<Rightarrow>
          (case verify_password pwd_context (ul_password user_data) (u_password_hash user) of
             None \<Rightarrow> Inl (500, ''Internal Server Error'')
           | Some False \<Rightarrow> Inl (401, ''Incorrect email or password'')
           | Some True \<Rightarrow>
               (let access_token_expires = minutes ACCESS_TOKEN_EXPIRE_MINUTES
                in case create_access_token [''sub'' \<mapsto> JStr (u_email user)]
                          (Some access_token_expires) utcnow of
                     Inl err \<Rightarrow> Inl (500, ''Internal Server Error'')
                   | Inr encoded_jwt \<Rightarrow>
                       Inr \<lparr>access_token = encoded_jwt, token_type = ''bearer'',
                            login_user = user_response user\<rparr>)))"

section \<open>Podcast routes\<close>

text \<open>\<^verbatim>\<open>POST /api/podcasts\<close>, with the resolved \<^verbatim>\<open>current_user\<close> as an argument.\<close>

definition create_podcast :: "string \<Rightarrow> int \<Rightarrow> PodcastCreate \<Rightarrow> User \<Rightarrow> world
    \<Rightarrow> (http_error + Podcast) \<times> world" where
  "create_podcast uuid4 utcnow podcast_data current_user w =
     (if u_role current_user \<noteq> ''podcaster''
      then (Inl (403, ''Only podcasters can create podcasts''), w)
      else (let podcast = \<lparr>p_id = uuid4, p_title = pc_title podcast_data,
                            p_description = pc_description podcast_data,
                            p_creator_id = u_id current_user, p_cover_image = None,
                            p_category = pc_category podcast_data, p_created_at = utcnow\<rparr>
            in (Inr podcast, w\<lparr>db_podcasts := db_podcasts w @ [podcast]\<rparr>)))"

section \<open>Episode routes\<close>

text \<open>\<^verbatim>\<open>str.split(sep)\<close> for a one-character separator; the result is never empty.\<close>

fun split :: "char \<Rightarrow> string \<Rightarrow> string list" where
  "split sep [] = [[]]"
| "split sep (c # cs) =
     (if c = sep then [] # split sep cs
      else (let r = split sep cs in (c # hd r) # tl r))"

text \<open>\<^verbatim>\<open>str.lower()\<close> on ASCII: the letters A to Z move to a to z.\<close>

definition lower_char :: "char \<Rightarrow> char" where
  "lower_char c =
     (case map_of (zip ''ABCDEFGHIJKLMNOPQRSTUVWXYZ'' ''abcdefghijklmnopqrstuvwxyz'') c of
        Some l \<Rightarrow> l
      | None \<Rightarrow> c)"

definition lower :: "string \<Rightarrow> string" where
  "lower s = map lower_char s"

text \<open>\<^verbatim>\<open>filename.split('.')[-1]\<close>: what follows the last dot, or the whole name without one.\<close>

definition extension_of :: "string \<Rightarrow> string" where
  "extension_of name = last (split (CHR ''.'') name)"

text \<open>
  The extension of a file name as the specification means it: the text after the last
  dot of a name that has a dot; a name without a dot has no extension. The stem is the
  text before the last dot.
\<close>

definition after_last_dot :: "string \<Rightarrow> string" where
  "after_last_dot name = rev (takeWhile (\<lambda>c. c \<noteq> CHR ''.'') (rev name))"

definition before_last_dot :: "string \<Rightarrow> string" where
  "before_last_dot name = rev (tl (dropWhile (\<lambda>c. c \<noteq> CHR ''.'') (rev name)))"

definition spec_extension :: "string \<Rightarrow> string option" where
  "spec_extension name =
     (if CHR ''.'' \<in> set name then Some (after_last_dot name) else None)"

record UploadFile =
  filename :: string
  content :: string

text \<open>
  \<^verbatim>\<open>POST /api/podcasts/{podcast_id}/episodes\<close>. Two identifiers are drawn: one for the
  stored file, one for the episode. The file is opened with mode \<^verbatim>\<open>wb\<close>, so a write
  replaces what the name held.
\<close>

definition create_episode :: "string \<Rightarrow> string \<Rightarrow> int \<Rightarrow> string \<Rightarrow> string \<Rightarrow> string \<Rightarrow> UploadFile
    \<Rightarrow> User \<Rightarrow> world \<Rightarrow> (http_error + Episode) \<times> world" where
  "create_episode file_uuid4 episode_uuid4 utcnow podcast_id title description audio_file
       current_user w =
     (if u_role current_user \<noteq> ''podcaster''
      then (Inl (403, ''Only podcasters can upload episodes''), w)
      else (case find_one (\<lambda>p. p_id p = podcast_id \<and> p_creator_id p = u_id current_user)
                   (db_podcasts w) of
              None \<Rightarrow> (Inl (404, ''Podcast not found or not owned by user''), w)
            | Some podcast \<Rightarrow>
                (let file_extension = extension_of (filename audio_file)
                 in if lower file_extension \<notin> set [''mp3'', ''wav'', ''ogg'']
                    then (Inl (400, ''Only MP3, WAV, and OGG files are supported''), w)
                    else (let fname = file_uuid4 @ ''.'' @ file_extension;
                              w1 = w\<lparr>upload_dir := (upload_dir w)(fname \<mapsto> content audio_file)\<rparr>;
                              episode = \<lparr>e_id = episode_uuid4, e_podcast_id = podcast_id,
                                          e_title = title, e_description = description,
                                          e_audio_file = fname, e_duration = None,
                                          e_created_at = utcnow\<rparr>
                          in (Inr episode, w1\<lparr>db_episodes := db_episodes w1 @ [episode]\<rparr>)))))"

section \<open>Search routes\<close>

text \<open>
  The filter \<^verbatim>\<open>{"$regex": q, "$options": "i"}\<close> hands the query to the store's regular
  expression engine: the field matches when the pattern \<open>q\<close>, read without regard to
  letter case, matches somewhere in it. The engine is not part of the repository. The
  model covers the patterns built from ordinary characters and the dot, which stands
  for any one character but a line feed; for a pattern with another special character
  (\<^verbatim>\<open>\ ^ $ [ ] | ( ) ? * + { }\<close>) it gives no answer (\<open>None\<close>).
\<close>

datatype atom = AnyChar | Lit char

definition regex_special :: "char list" where
  "regex_special = CHR 0x5C # ''^$[]|()?*+{}''"

definition compile_regex :: "string \<Rightarrow> atom list option" where
  "compile_regex q =
     (if list_ex (\<lambda>c. c \<in> set regex_special) q then None
      else Some (map (\<lambda>c. if c = CHR ''.'' then AnyChar else Lit c) q))"

fun atom_matches :: "atom \<Rightarrow> char \<Rightarrow> bool" where
  "atom_matches AnyChar c = (c \<noteq> CHR 0x0A)"
| "atom_matches (Lit l) c = (lower_char l = lower_char c)"

fun match_here :: "atom list \<Rightarrow> string \<Rightarrow> bool" where
  "match_here [] s = True"
| "match_here (a # as) [] = False"
| "match_here (a # as) (c # cs) = (atom_matches a c \<and> match_here as cs)"

fun regex_search :: "atom list \<Rightarrow> string \<Rightarrow> bool" where
  "regex_search re [] = match_here re []"
| "regex_search re (c # cs) = (match_here re (c # cs) \<or> regex_search re cs)"

record SearchResult =
  podcasts :: "Podcast list"
  episodes :: "Episode list"

text \<open>\<^verbatim>\<open>GET /api/search?q=\<close>. It reads the store and writes nothing.\<close>

definition search :: "string \<Rightarrow> world \<Rightarrow> SearchResult option" where
  "search q w =
     (case compile_regex q of
        None \<Rightarrow> None
      | Some re \<Rightarrow>
          (let podcast_results =
                 find_to_list (\<lambda>p. regex_search re (p_title p) \<or> regex_search re (p_description p)
                                   \<or> regex_search re (p_category p)) 50 (db_podcasts w);
               episode_results =
                 find_to_list (\<lambda>e. regex_search re (e_title e) \<or> regex_search re (e_description e))
                   50 (db_episodes w)
           in Some \<lparr>podcasts = podcast_results, episodes = episode_results\<rparr>))"

text \<open>
  The substring predicate of the specification: the query, compared without regard to
  letter case, occurs as a contiguous part of the field.
\<close>

definition contains_ci :: "string \<Rightarrow> string \<Rightarrow> bool" where
  "contains_ci q field = sublist (lower q) (lower field)"

definition show_contains :: "string \<Rightarrow> Podcast \<Rightarrow> bool" where
  "show_contains q p =
     (contains_ci q (p_title p) \<or> contains_ci q (p_description p) \<or> contains_ci q (p_category p))"

definition episode_contains :: "string \<Rightarrow> Episode \<Rightarrow> bool" where
  "episode_contains q e = (contains_ci q (e_title e) \<or> contains_ci q (e_description e))"

section \<open>The registration view of \<^verbatim>\<open>backend/views.py\<close>\<close>

text \<open>
  \<^verbatim>\<open>register_user(request)\<close> works on its own collection of untyped documents. The
  request body is given as \<^verbatim>\<open>json.loads\<close> returns it, \<open>None\<close> when it raises. Every
  exception ends in the \<^verbatim>\<open>except\<close> clause, which answers 500 with the exception's text.
  The lookup filter \<^verbatim>\<open>{"email": email}\<close> is modelled as equality on the field.
\<close>

type_synonym document = "(string \<times> json) list"

datatype response_data = ErrorData string | MessageData string | ExceptionData py_exception

type_synonym JsonResponse = "response_data \<times> nat"

record HttpRequest =
  request_method :: string
  request_body :: "json option"

text \<open>Python truthiness of a decoded JSON value.\<close>

fun truthy :: "json \<Rightarrow> bool" where
  "truthy JNull = False"
| "truthy (JBool b) = b"
| "truthy (JNum n) = (n \<noteq> 0)"
| "truthy (JStr s) = (s \<noteq> [])"
| "truthy (JArr xs) = (xs \<noteq> [])"
| "truthy (JObj kvs) = (kvs \<noteq> [])"

text \<open>\<^verbatim>\<open>dict.get(key)\<close> on a decoded object, where a repeated key keeps its last value.\<close>

definition dict_get :: "document \<Rightarrow> string \<Rightarrow> json" where
  "dict_get d k = (case map_of (rev d) k of None \<Rightarrow> JNull | Some v \<Rightarrow> v)"

definition register_user :: "HttpRequest \<Rightarrow> document list \<Rightarrow> JsonResponse \<times> document list" where
  "register_user request users_collection =
     (if request_method request = ''POST'' then
        (case request_body request of
           None \<Rightarrow> ((ExceptionData JSONDecodeError, 500), users_collection)
         | Some (JObj data) \<Rightarrow>
             (let email = dict_get data ''email'';
                  password = dict_get data ''password''
              in if \<not> truthy email \<or> \<not> truthy password
                 then ((ErrorData ''Email and password required'', 400), users_collection)
                 else (case find_one (\<lambda>d. map_of (rev d) ''email'' = Some email) users_collection of
                         Some existing \<Rightarrow> ((ErrorData ''User already exists'', 409), users_collection)
                       | None \<Rightarrow>
                           ((MessageData ''Registration successful'', 201),
                            users_collection @ [[(''email'', email), (''password'', password)]])))
         | Some other \<Rightarrow> ((ExceptionData AttributeError, 500), users_collection))
      else ((ErrorData ''Invalid request method'', 405), users_collection))"

section \<open>A small store for concrete runs\<close>

definition ann :: User where
  "ann = \<lparr>u_id = ''u1'', u_email = ''ann@example.com'', u_username = ''ann'',
           u_password_hash = ''$terces'', u_role = ''podcaster'', u_created_at = 10\<rparr>"

definition bob :: User where
  "bob = \<lparr>u_id = ''u2'', u_email = ''bob@example.com'', u_username = ''bob'',
           u_password_hash = ''$drowssap'', u_role = ''listener'', u_created_at = 20\<rparr>"

definition tech_show :: Podcast where
  "tech_show = \<lparr>p_id = ''s1'', p_title = ''Byte Size'', p_description = ''weekly news'',
                 p_creator_id = ''u1'', p_cover_image = None, p_category = ''Technology'',
                 p_created_at = 30\<rparr>"

definition music_show :: Podcast where
  "music_show = \<lparr>p_id = ''s2'', p_title = ''Loud'', p_description = ''new records'',
                  p_creator_id = ''u3'', p_cover_image = None, p_category = ''Music'',
                  p_created_at = 40\<rparr>"

definition pilot :: Episode where
  "pilot = \<lparr>e_id = ''e1'', e_podcast_id = ''s1'', e_title = ''Pilot'',
             e_description = ''first one'', e_audio_file = ''f0.mp3'', e_duration = None,
             e_created_at = 50\<rparr>"

definition world0 :: world where
  "world0 = \<lparr>db_users = [ann, bob], db_podcasts = [tech_show, music_show],
              db_episodes = [pilot], upload_dir = Map.empty\<rparr>"

text \<open>
  A stand-in for the hashing library: the digest is a marker and the reversed password,
  and a password with a NUL byte is refused.
\<close>

definition test_context :: CryptContext where
  "test_context = \<lparr>cc_hash = (\<lambda>salt password.
                       if CHR 0x00 \<in> set password then None else Some (CHR ''$'' # rev password)),
                    cc_verify = (\<lambda>password digest.
                       case digest of [] \<Rightarrow> None | c # cs \<Rightarrow> Some (cs = rev password))\<rparr>"

section \<open>Lookups\<close>

lemma find_one_SomeD: "find_one P xs = Some x \<Longrightarrow> P x \<and> x \<in> set xs"
  by (auto simp: find_one_def find_Some_iff)

lemma find_one_None_iff: "find_one P xs = None \<longleftrightarrow> \<not> (\<exists>x\<in>set xs. P x)"
  by (auto simp: find_one_def find_None_iff)

lemma find_one_email_JStr:
  "find_one (\<lambda>u. JStr (u_email u) = JStr S) us = find_one (\<lambda>u. u_email u = S) us"
  by (simp add: find_one_def)

section \<open>Token issue and verification\<close>

lemma timegm_before: "t + 1000000 \<le> e \<Longrightarrow> timegm t < timegm e"
  unfolding timegm_def by linarith

lemma timegm_after: "e \<le> t \<Longrightarrow> timegm e \<le> timegm t"
  unfolding timegm_def by (rule zdiv_mono1) simp_all

lemma create_access_token_in_range:
  assumes "expires_delta \<noteq> Some 0"
      and "ttl = (case expires_delta of Some d \<Rightarrow> d | None \<Rightarrow> minutes 15)"
      and "datetime_in_range (t0 + ttl)"
  shows "create_access_token data expires_delta t0
           = Inr (Signed (data(''exp'' \<mapsto> JNum (timegm (t0 + ttl)))) SECRET_KEY)"
  using assms
  by (cases expires_delta) (simp_all add: create_access_token_def datetime_add_def jwt_encode_def)

lemma create_access_token_overflow:
  assumes "expires_delta \<noteq> Some 0"
      and "ttl = (case expires_delta of Some d \<Rightarrow> d | None \<Rightarrow> minutes 15)"
      and "\<not> datetime_in_range (t0 + ttl)"
  shows "create_access_token data expires_delta t0 = Inl OverflowError"
  using assms
  by (cases expires_delta) (simp_all add: create_access_token_def datetime_add_def)

lemma get_current_user_fresh:
  assumes "find_one (\<lambda>u. u_email u = S) (db_users w) = Some user" and "timegm t < exp"
  shows "get_current_user w (Signed [''sub'' \<mapsto> JStr S, ''exp'' \<mapsto> JNum exp] SECRET_KEY) t
           = Inr user"
  using assms by (simp add: get_current_user_def jwt_decode_def find_one_email_JStr)

lemma get_current_user_expired:
  assumes "payload ''exp'' = Some (JNum exp)" and "exp \<le> timegm t"
  shows "get_current_user w (Signed payload SECRET_KEY) t
           = Inl (401, ''Invalid authentication credentials'')"
  using assms by (simp add: get_current_user_def jwt_decode_def)

text \<open>
  C1, as amended. Let the ttl be the explicit one when it is not zero, or 15 minutes
  when none is given. When the expiry instant, issue plus ttl, is an instant a
  \<^verbatim>\<open>datetime\<close> can hold, \<open>create_access_token\<close> issues a token for \<open>sub = S\<close>, and
  \<open>get_current_user\<close> resolves it to the stored user that the lookup by email \<open>S\<close> finds
  (whose email is \<open>S\<close>) at every instant in a whole second before the whole second of the
  expiry instant, so at every instant at least one second before the ttl has elapsed.
  At every instant in the second of the expiry instant or a later one, so at every
  instant at which the ttl has elapsed, it fails with status 401, stored user or not.
  When the expiry instant is beyond what a \<^verbatim>\<open>datetime\<close> can hold, no token is issued:
  \<open>create_access_token\<close> raises \<^verbatim>\<open>OverflowError\<close>.
\<close>

theorem token_roundtrip:
  assumes "expires_delta \<noteq> Some 0"
      and "ttl = (case expires_delta of Some d \<Rightarrow> d | None \<Rightarrow> minutes 15)"
  shows "(datetime_in_range (t0 + ttl) \<longrightarrow>
          (\<exists>tok. create_access_token [''sub'' \<mapsto> JStr S] expires_delta t0 = Inr tok
             \<and> (\<forall>t user. find_one (\<lambda>u. u_email u = S) (db_users w) = Some user \<longrightarrow>
                   (timegm t < timegm (t0 + ttl) \<longrightarrow>
                      get_current_user w tok t = Inr user \<and> u_email user = S)
                 \<and> (t + 1000000 \<le> t0 + ttl \<longrightarrow> get_current_user w tok t = Inr user))
             \<and> (\<forall>t. (timegm (t0 + ttl) \<le> timegm t \<longrightarrow>
                      get_current_user w tok t = Inl (401, ''Invalid authentication credentials''))
                  \<and> (t0 + ttl \<le> t \<longrightarrow>
                      get_current_user w tok t
                        = Inl (401, ''Invalid authentication credentials'')))))
       \<and> (\<not> datetime_in_range (t0 + ttl) \<longrightarrow>
            create_access_token [''sub'' \<mapsto> JStr S] expires_delta t0 = Inl OverflowError)"
proof (cases "datetime_in_range (t0 + ttl)")
  case True
  let ?tok = "Signed [''sub'' \<mapsto> JStr S, ''exp'' \<mapsto> JNum (timegm (t0 + ttl))] SECRET_KEY"
  have issued: "create_access_token [''sub'' \<mapsto> JStr S] expires_delta t0 = Inr ?tok"
    by (rule create_access_token_in_range[OF assms True])
  have resolved: "get_current_user w ?tok t = Inr user \<and> u_email user = S"
    if "find_one (\<lambda>u. u_email u = S) (db_users w) = Some user" and "timegm t < timegm (t0 + ttl)"
    for t user
    using get_current_user_fresh[OF that] find_one_SomeD[OF that(1)] by simp
  have refused: "get_current_user w ?tok t = Inl (401, ''Invalid authentication credentials'')"
    if "timegm (t0 + ttl) \<le> timegm t" for t
    by (rule get_current_user_expired[OF _ that]) simp
  show ?thesis
    using True issued resolved refused timegm_before timegm_after by blast
next
  case False
  then show ?thesis
    using create_access_token_overflow[OF assms False] by simp
qed

theorem token_roundtrip_witness:
  "(\<exists>tok. create_access_token [''sub'' \<mapsto> JStr ''ann@example.com''] (Some (minutes 30)) 1000900000
            = Inr tok
        \<and> get_current_user world0 tok 2000000000 = Inr ann
        \<and> get_current_user world0 tok 2800900000
            = Inl (401, ''Invalid authentication credentials''))
 \<and> (\<exists>tok. create_access_token [''sub'' \<mapsto> JStr ''ann@example.com''] None 1000900000 = Inr tok
        \<and> get_current_user world0 tok 1600000000 = Inr ann
        \<and> get_current_user world0 tok 1900900000
            = Inl (401, ''Invalid authentication credentials''))
 \<and> create_access_token [''sub'' \<mapsto> JStr ''ann@example.com''] (Some (minutes 30)) DATETIME_MAX
      = Inl OverflowError"
proof -
  have found: "find_one (\<lambda>u. u_email u = ''ann@example.com'') (db_users world0) = Some ann"
    by (simp add: find_one_def world0_def ann_def)
  have explicit: "Some (minutes 30) \<noteq> Some (0::int)"
    "minutes 30 = (case Some (minutes 30) of Some d \<Rightarrow> d | None \<Rightarrow> minutes 15)"
    by (simp_all add: minutes_def)
  have absent: "(None :: int option) \<noteq> Some 0"
    "minutes 15 = (case (None :: int option) of Some d \<Rightarrow> d | None \<Rightarrow> minutes 15)"
    by simp_all
  have in_range: "datetime_in_range (1000900000 + minutes 30)"
    "datetime_in_range (1000900000 + minutes 15)"
    by (simp_all add: minutes_def datetime_in_range_def DATETIME_MIN_def DATETIME_MAX_def)
  have beyond: "\<not> datetime_in_range (DATETIME_MAX + minutes 30)"
    by (simp add: minutes_def datetime_in_range_def DATETIME_MIN_def DATETIME_MAX_def)
  have early: "(2000000000::int) + 1000000 \<le> 1000900000 + minutes 30"
    "(1600000000::int) + 1000000 \<le> 1000900000 + minutes 15"
    by (simp_all add: minutes_def)
  have late: "1000900000 + minutes 30 \<le> (2800900000::int)"
    "1000900000 + minutes 15 \<le> (1900900000::int)"
    by (simp_all add: minutes_def)
  have first: "\<exists>tok. create_access_token [''sub'' \<mapsto> JStr ''ann@example.com'']
                        (Some (minutes 30)) 1000900000 = Inr tok
                 \<and> get_current_user world0 tok 2000000000 = Inr ann
                 \<and> get_current_user world0 tok 2800900000
                     = Inl (401, ''Invalid authentication credentials'')"
    using found early(1) late(1) in_range(1)
      token_roundtrip[OF explicit, of 1000900000 "''ann@example.com''" world0]
    by blast
  have second: "\<exists>tok. create_access_token [''sub'' \<mapsto> JStr ''ann@example.com''] None 1000900000
                        = Inr tok
                 \<and> get_current_user world0 tok 1600000000 = Inr ann
                 \<and> get_current_user world0 tok 1900900000
                     = Inl (401, ''Invalid authentication credentials'')"
    using found early(2) late(2) in_range(2)
      token_roundtrip[OF absent, of 1000900000 "''ann@example.com''" world0]
    by blast
  have third: "create_access_token [''sub'' \<mapsto> JStr ''ann@example.com''] (Some (minutes 30))
                 DATETIME_MAX = Inl OverflowError"
    using beyond token_roundtrip[OF explicit, of DATETIME_MAX "''ann@example.com''" world0]
    by blast
  show ?thesis using first second third by blast
qed

text \<open>
  C1 as stated fails in two ways. The token issued at second 1000 with the ttl
  \<^verbatim>\<open>timedelta(0)\<close> is still accepted at second 1001, after its ttl has elapsed. The token
  issued at second 1000.9 with a ttl of one second is refused at second 1001.5, before
  its ttl has elapsed.
\<close>

theorem ttl_not_honoured:
  "(1000000000::int) + 0 < 1001000000
 \<and> get_current_user world0
     (projr (create_access_token [''sub'' \<mapsto> JStr ''ann@example.com''] (Some 0) 1000000000))
     1001000000 = Inr ann
 \<and> (1001500000::int) < 1000900000 + 1000000
 \<and> get_current_user world0
     (projr (create_access_token [''sub'' \<mapsto> JStr ''ann@example.com''] (Some 1000000) 1000900000))
     1001500000 = Inl (401, ''Invalid authentication credentials'')"
  by (simp add: get_current_user_def create_access_token_def jwt_encode_def jwt_decode_def
      datetime_add_def datetime_in_range_def DATETIME_MIN_def DATETIME_MAX_def timegm_def
      find_one_def world0_def ann_def minutes_def)

text \<open>
  C8, as amended. Called without an explicit ttl, \<open>create_access_token\<close> sets the expiry
  15 minutes after the instant of issue, which the token carries cut to its whole
  second, and raises \<^verbatim>\<open>OverflowError\<close> when that instant is beyond what a \<^verbatim>\<open>datetime\<close> can
  hold. A token that \<open>login\<close> returns was issued with the explicit ttl
  \<open>ACCESS_TOKEN_EXPIRE_MINUTES\<close> and expires 30 minutes after issue.
\<close>

theorem default_expiry_fifteen_minutes:
  "(datetime_in_range (t0 + minutes 15) \<longrightarrow>
      (\<exists>tok. create_access_token data None t0 = Inr tok
            \<and> expiry_of tok = Some (timegm (t0 + minutes 15))))
 \<and> (\<not> datetime_in_range (t0 + minutes 15) \<longrightarrow>
      create_access_token data None t0 = Inl OverflowError)
 \<and> (login pwd_context t0 user_data w = Inr r \<longrightarrow>
      expiry_of (access_token r) = Some (timegm (t0 + minutes 30)))"
  by (auto simp: login_def create_access_token_def expiry_of_def jwt_encode_def datetime_add_def
      ACCESS_TOKEN_EXPIRE_MINUTES_def minutes_def Let_def
      split: option.splits bool.splits if_splits)

theorem default_expiry_fifteen_minutes_witness:
  "(\<exists>r. login test_context 1000000000
            \<lparr>ul_email = ''ann@example.com'', ul_password = ''secret''\<rparr> world0 = Inr r
        \<and> expiry_of (access_token r) = Some 2800)
 \<and> (\<exists>tok. create_access_token [''sub'' \<mapsto> JStr ''ann@example.com''] None 1000000000 = Inr tok
        \<and> expiry_of tok = Some 1900)"
proof -
  obtain r where r: "login test_context 1000000000
      \<lparr>ul_email = ''ann@example.com'', ul_password = ''secret''\<rparr> world0 = Inr r"
    by (simp add: login_def find_one_def world0_def ann_def verify_password_def test_context_def
        create_access_token_def datetime_add_def datetime_in_range_def DATETIME_MIN_def
        DATETIME_MAX_def minutes_def ACCESS_TOKEN_EXPIRE_MINUTES_def)
  have in_range: "datetime_in_range (1000000000 + minutes 15)"
    by (simp add: minutes_def datetime_in_range_def DATETIME_MIN_def DATETIME_MAX_def)
  have seconds: "timegm (1000000000 + minutes 15) = 1900" "timegm (1000000000 + minutes 30) = 2800"
    by (simp_all add: timegm_def minutes_def)
  show ?thesis
    using r in_range seconds
      default_expiry_fifteen_minutes[of 1000000000 "[''sub'' \<mapsto> JStr ''ann@example.com'']"
        test_context "\<lparr>ul_email = ''ann@example.com'', ul_password = ''secret''\<rparr>" world0 r]
    by auto
qed

text \<open>
  C8 as stated fails: the token issued at second 1000 without a ttl expires at second
  1900, not at second 2800, which is 30 minutes after issue.
\<close>

theorem default_expiry_not_thirty:
  "expiry_of (projr (create_access_token [''sub'' \<mapsto> JStr ''ann@example.com''] None 1000000000))
     = Some 1900
 \<and> timegm (1000000000 + minutes 30) = 2800"
  by (simp add: create_access_token_def expiry_of_def jwt_encode_def minutes_def timegm_def
      datetime_add_def datetime_in_range_def DATETIME_MIN_def DATETIME_MAX_def)

text \<open>
  C9. A token whose signature verifies under the secret key and whose expiry is still
  ahead of the second of verification, but whose payload has no \<open>sub\<close> field, makes
  \<open>get_current_user\<close> fail with status 401; no user is resolved.
\<close>

theorem token_without_sub_unauthorized:
  assumes "payload ''sub'' = None" and "payload ''exp'' = Some (JNum exp)" and "timegm now < exp"
  shows "get_current_user w (Signed payload SECRET_KEY) now
           = Inl (401, ''Invalid authentication credentials'')"
  using assms by (simp add: get_current_user_def jwt_decode_def)

theorem token_without_sub_unauthorized_witness:
  "get_current_user world0 (Signed [''exp'' \<mapsto> JNum 2000] SECRET_KEY) 1500000000
     = Inl (401, ''Invalid authentication credentials'')"
proof -
  have no_sub: "[''exp'' \<mapsto> JNum 2000] ''sub'' = None" by simp
  have has_exp: "[''exp'' \<mapsto> JNum 2000] ''exp'' = Some (JNum 2000)" by simp
  have ahead: "timegm 1500000000 < 2000" by (simp add: timegm_def)
  show ?thesis by (rule token_without_sub_unauthorized[OF no_sub has_exp ahead])
qed

section \<open>Login and registration\<close>

text \<open>
  C3. A login with an email that no stored user has and a login with a stored email
  whose password fails verification end in the same failure: status 401 with the same
  detail text.
\<close>

theorem login_failures_identical:
  assumes "find_one (\<lambda>u. u_email u = e1) (db_users w) = None"
      and "find_one (\<lambda>u. u_email u = e2) (db_users w) = Some user"
      and "verify_password pwd_context p2 (u_password_hash user) = Some False"
  shows "login pwd_context now1 \<lparr>ul_email = e1, ul_password = p1\<rparr> w
           = Inl (401, ''Incorrect email or password'')
       \<and> login pwd_context now2 \<lparr>ul_email = e2, ul_password = p2\<rparr> w
           = login pwd_context now1 \<lparr>ul_email = e1, ul_password = p1\<rparr> w"
  using assms by (simp add: login_def)

theorem login_failures_identical_witness:
  "login test_context 7 \<lparr>ul_email = ''eve@example.com'', ul_password = ''secret''\<rparr> world0
     = Inl (401, ''Incorrect email or password'')
 \<and> login test_context 9 \<lparr>ul_email = ''ann@example.com'', ul_password = ''guess''\<rparr> world0
     = Inl (401, ''Incorrect email or password'')"
proof -
  have unknown: "find_one (\<lambda>u. u_email u = ''eve@example.com'') (db_users world0) = None"
    by (simp add: find_one_def world0_def ann_def bob_def)
  have known: "find_one (\<lambda>u. u_email u = ''ann@example.com'') (db_users world0) = Some ann"
    by (simp add: find_one_def world0_def ann_def)
  have wrong: "verify_password test_context ''guess'' (u_password_hash ann) = Some False"
    by (simp add: verify_password_def test_context_def ann_def)
  show ?thesis
    using login_failures_identical[OF unknown known wrong, of 7 "''secret''" 9] by simp
qed

text \<open>
  The registration route of \<^verbatim>\<open>server.py\<close>: an email already stored is refused and the
  store stays as it was; otherwise the stored record holds the digest of the password,
  and nothing is stored when the hashing library refuses the password.
\<close>

lemma register_conflict:
  assumes "find_one (\<lambda>u. u_email u = uc_email user_data) (db_users w) = Some existing"
  shows "register pwd_context salt uuid4 now user_data w
           = (Inl (400, ''Email already registered''), w)"
  using assms by (simp add: register_def)

lemma register_persists_hash:
  assumes "find_one (\<lambda>u. u_email u = uc_email user_data) (db_users w) = None"
      and "get_password_hash pwd_context salt (uc_password user_data) = Some digest"
  shows "snd (register pwd_context salt uuid4 now user_data w)
           = w\<lparr>db_users := db_users w @
                 [\<lparr>u_id = uuid4, u_email = uc_email user_data,
                   u_username = uc_username user_data, u_password_hash = digest,
                   u_role = uc_role user_data, u_created_at = now\<rparr>]\<rparr>"
  using assms by (simp add: register_def Let_def)

lemma register_hash_refused:
  assumes "find_one (\<lambda>u. u_email u = uc_email user_data) (db_users w) = None"
      and "get_password_hash pwd_context salt (uc_password user_data) = None"
  shows "register pwd_context salt uuid4 now user_data w
           = (Inl (500, ''Internal Server Error''), w)"
  using assms by (simp add: register_def)

text \<open>
  C4. The claim asks that a registration persists the hash of the password and never
  the password itself. The view \<open>register_user\<close> of \<^verbatim>\<open>views.py\<close> does not: for a new
  email it stores the document with the password as it was sent.
\<close>

theorem register_user_stores_plaintext:
  "register_user \<lparr>request_method = ''POST'',
       request_body = Some (JObj [(''email'', JStr ''ann@example.com''),
                                  (''password'', JStr ''hunter2'')])\<rparr> []
     = ((MessageData ''Registration successful'', 201),
        [[(''email'', JStr ''ann@example.com''), (''password'', JStr ''hunter2'')]])"
  by (simp add: register_user_def dict_get_def find_one_def)

theorem register_user_stores_plaintext_witness:
  "dict_get (last (snd (register_user \<lparr>request_method = ''POST'',
       request_body = Some (JObj [(''email'', JStr ''ann@example.com''),
                                  (''password'', JStr ''hunter2'')])\<rparr> []))) ''password''
     = JStr ''hunter2''"
  using register_user_stores_plaintext by (simp add: dict_get_def)

section \<open>Role and ownership gates\<close>

text \<open>
  C7. For a user whose role is not podcaster, \<open>create_podcast\<close> fails with status 403
  whatever the payload and leaves the store as it was; for a podcaster it appends a
  show whose creator id is the acting user's id.
\<close>

theorem create_podcast_role_gate:
  "(u_role current_user \<noteq> ''podcaster'' \<longrightarrow>
      create_podcast uuid4 now podcast_data current_user w
        = (Inl (403, ''Only podcasters can create podcasts''), w))
 \<and> (u_role current_user = ''podcaster'' \<longrightarrow>
      (\<exists>p. create_podcast uuid4 now podcast_data current_user w
              = (Inr p, w\<lparr>db_podcasts := db_podcasts w @ [p]\<rparr>)
           \<and> p_creator_id p = u_id current_user))"
  by (simp add: create_podcast_def Let_def)

theorem create_podcast_role_gate_witness:
  "create_podcast ''s9'' 60 \<lparr>pc_title = ''T'', pc_description = ''D'', pc_category = ''C''\<rparr>
       bob world0
     = (Inl (403, ''Only podcasters can create podcasts''), world0)
 \<and> (\<exists>p. create_podcast ''s9'' 60 \<lparr>pc_title = ''T'', pc_description = ''D'', pc_category = ''C''\<rparr>
           ann world0
          = (Inr p, world0\<lparr>db_podcasts := db_podcasts world0 @ [p]\<rparr>)
       \<and> p_creator_id p = ''u1'')"
proof -
  have listener: "u_role bob \<noteq> ''podcaster''" by (simp add: bob_def)
  have podcaster: "u_role ann = ''podcaster''" by (simp add: ann_def)
  have ann_id: "u_id ann = ''u1''" by (simp add: ann_def)
  show ?thesis
    using listener podcaster ann_id
      create_podcast_role_gate[of bob "''s9''" 60
        "\<lparr>pc_title = ''T'', pc_description = ''D'', pc_category = ''C''\<rparr>" world0]
      create_podcast_role_gate[of ann "''s9''" 60
        "\<lparr>pc_title = ''T'', pc_description = ''D'', pc_category = ''C''\<rparr>" world0]
    by simp
qed

lemma create_episode_no_show:
  assumes "u_role current_user = ''podcaster''"
      and "find_one (\<lambda>p. p_id p = podcast_id \<and> p_creator_id p = u_id current_user)
             (db_podcasts w) = None"
  shows "create_episode fu eu now podcast_id title description audio_file current_user w
           = (Inl (404, ''Podcast not found or not owned by user''), w)"
  using assms by (simp add: create_episode_def)

lemma create_episode_show:
  assumes "u_role current_user = ''podcaster''"
      and "find_one (\<lambda>p. p_id p = podcast_id \<and> p_creator_id p = u_id current_user)
             (db_podcasts w) = Some podcast"
  shows "create_episode fu eu now podcast_id title description audio_file current_user w
           = (if lower (extension_of (filename audio_file)) \<notin> {''mp3'', ''wav'', ''ogg''}
              then (Inl (400, ''Only MP3, WAV, and OGG files are supported''), w)
              else (Inr \<lparr>e_id = eu, e_podcast_id = podcast_id, e_title = title,
                          e_description = description,
                          e_audio_file = fu @ ''.'' @ extension_of (filename audio_file),
                          e_duration = None, e_created_at = now\<rparr>,
                    w\<lparr>upload_dir := (upload_dir w)(fu @ ''.'' @ extension_of (filename audio_file)
                                        \<mapsto> content audio_file),
                      db_episodes := db_episodes w @
                        [\<lparr>e_id = eu, e_podcast_id = podcast_id, e_title = title,
                          e_description = description,
                          e_audio_file = fu @ ''.'' @ extension_of (filename audio_file),
                          e_duration = None, e_created_at = now\<rparr>]\<rparr>))"
  using assms by (simp add: create_episode_def Let_def)

text \<open>
  C2. For a podcaster, \<open>create_episode\<close> fails with status 404, the store unchanged,
  when no stored show has both the given id and the acting user as creator; when such
  a show exists the result is never a 404. In neither case is it a 403: a show that
  exists but belongs to someone else is reported as not found.
\<close>

theorem create_episode_not_found:
  assumes "u_role current_user = ''podcaster''"
  shows "(\<not> (\<exists>p\<in>set (db_podcasts w). p_id p = podcast_id \<and> p_creator_id p = u_id current_user) \<longrightarrow>
            create_episode fu eu now podcast_id title description audio_file current_user w
              = (Inl (404, ''Podcast not found or not owned by user''), w))
       \<and> ((\<exists>p\<in>set (db_podcasts w). p_id p = podcast_id \<and> p_creator_id p = u_id current_user) \<longrightarrow>
            (\<forall>detail. fst (create_episode fu eu now podcast_id title description audio_file
                              current_user w) \<noteq> Inl (404, detail)))
       \<and> (\<forall>detail. fst (create_episode fu eu now podcast_id title description audio_file
                           current_user w) \<noteq> Inl (403, detail))"
proof (cases "find_one (\<lambda>p. p_id p = podcast_id \<and> p_creator_id p = u_id current_user)
                (db_podcasts w)")
  case None
  have "\<not> (\<exists>p\<in>set (db_podcasts w). p_id p = podcast_id \<and> p_creator_id p = u_id current_user)"
    using None unfolding find_one_None_iff .
  then show ?thesis
    by (simp add: create_episode_no_show[OF assms None])
next
  case (Some podcast)
  have "\<exists>p\<in>set (db_podcasts w). p_id p = podcast_id \<and> p_creator_id p = u_id current_user"
    using find_one_SomeD[OF Some] by blast
  then show ?thesis
    by (simp add: create_episode_show[OF assms Some])
qed

theorem create_episode_not_found_witness:
  "create_episode ''f1'' ''e2'' 70 ''s2'' ''T'' ''D'' \<lparr>filename = ''a.mp3'', content = ''xyz''\<rparr>
       ann world0
     = (Inl (404, ''Podcast not found or not owned by user''), world0)
 \<and> fst (create_episode ''f1'' ''e2'' 70 ''s1'' ''T'' ''D'' \<lparr>filename = ''a.mp3'', content = ''xyz''\<rparr>
          ann world0)
     \<noteq> Inl (404, ''Podcast not found or not owned by user'')"
proof -
  have podcaster: "u_role ann = ''podcaster''" by (simp add: ann_def)
  have foreign: "\<not> (\<exists>p\<in>set (db_podcasts world0). p_id p = ''s2'' \<and> p_creator_id p = u_id ann)"
    by (simp add: world0_def tech_show_def music_show_def ann_def)
  have own: "\<exists>p\<in>set (db_podcasts world0). p_id p = ''s1'' \<and> p_creator_id p = u_id ann"
    by (simp add: world0_def tech_show_def music_show_def ann_def)
  show ?thesis
    using foreign own
      create_episode_not_found[OF podcaster, of world0 "''s2''" "''f1''" "''e2''" 70 "''T''" "''D''"
        "\<lparr>filename = ''a.mp3'', content = ''xyz''\<rparr>"]
      create_episode_not_found[OF podcaster, of world0 "''s1''" "''f1''" "''e2''" 70 "''T''" "''D''"
        "\<lparr>filename = ''a.mp3'', content = ''xyz''\<rparr>"]
    by blast
qed

section \<open>Upload\<close>

lemma split_without_sep: "sep \<notin> set cs \<Longrightarrow> split sep cs = [cs]"
  by (induction cs) auto

lemma split_not_Nil: "split sep cs \<noteq> []"
  by (induction cs) (simp_all add: Let_def)

lemma split_with_sep: "sep \<in> set cs \<Longrightarrow> tl (split sep cs) \<noteq> []"
  by (induction cs) (auto simp: Let_def split_not_Nil)

lemma takeWhile_rev_snoc:
  "takeWhile P (rev cs @ [c]) = (if \<forall>x\<in>set cs. P x then rev cs @ takeWhile P [c]
                                 else takeWhile P (rev cs))"
  by (simp add: takeWhile_append)

lemma last_split: "last (split sep cs) = rev (takeWhile (\<lambda>c. c \<noteq> sep) (rev cs))"
proof (induction cs)
  case Nil
  then show ?case by simp
next
  case (Cons c cs)
  show ?case
  proof (cases "sep \<in> set cs")
    case True
    then have "last (split sep (c # cs)) = last (split sep cs)"
      using split_with_sep[OF True] split_not_Nil[of sep cs]
      by (cases "split sep cs") (auto simp: Let_def)
    then show ?thesis using Cons True by (auto simp: takeWhile_rev_snoc)
  next
    case False
    then show ?thesis
      by (auto simp: split_without_sep takeWhile_rev_snoc)
  qed
qed

lemma extension_of_after_last_dot: "extension_of name = after_last_dot name"
  by (simp add: extension_of_def after_last_dot_def last_split)

lemma name_parts:
  assumes "CHR ''.'' \<in> set name"
  shows "name = before_last_dot name @ ''.'' @ after_last_dot name"
proof -
  let ?P = "\<lambda>c. c \<noteq> CHR ''.''"
  have "dropWhile ?P (rev name) \<noteq> []" using assms by (simp add: dropWhile_eq_Nil_conv)
  moreover have "hd (dropWhile ?P (rev name)) = CHR ''.''"
    using calculation hd_dropWhile[of ?P "rev name"] by simp
  ultimately have dw: "dropWhile ?P (rev name) = CHR ''.'' # tl (dropWhile ?P (rev name))"
    by (cases "dropWhile ?P (rev name)") simp_all
  have "rev name = takeWhile ?P (rev name) @ dropWhile ?P (rev name)" by simp
  then have "rev name = takeWhile ?P (rev name) @ CHR ''.'' # tl (dropWhile ?P (rev name))"
    using dw by simp
  then have "rev (rev name) = rev (takeWhile ?P (rev name) @ CHR ''.'' # tl (dropWhile ?P (rev name)))"
    by (rule arg_cong)
  then show ?thesis by (simp add: before_last_dot_def after_last_dot_def)
qed

lemma after_last_dot_no_dot: "CHR ''.'' \<notin> set (after_last_dot name)"
  by (auto simp: after_last_dot_def dest: set_takeWhileD)

lemma after_last_dot_whole:
  assumes "CHR ''.'' \<notin> set name"
  shows "after_last_dot name = name"
proof -
  have whole: "takeWhile (\<lambda>c. c \<noteq> CHR ''.'') (rev name) = rev name"
    by (rule takeWhile_eq_all_conv[THEN iffD2]) (use assms in auto)
  show ?thesis unfolding after_last_dot_def whole by simp
qed

lemma key_is_name_iff:
  "fu @ ''.'' @ after_last_dot name = name
     \<longleftrightarrow> CHR ''.'' \<in> set name \<and> before_last_dot name = fu"
proof (cases "CHR ''.'' \<in> set name")
  case True
  define stem where "stem = before_last_dot name"
  define rest where "rest = ''.'' @ after_last_dot name"
  have parts: "name = stem @ rest"
    using name_parts[OF True] by (simp add: stem_def rest_def)
  have "fu @ rest = stem @ rest \<longleftrightarrow> fu = stem" by simp
  then have "fu @ rest = name \<longleftrightarrow> stem = fu" using parts by metis
  then show ?thesis using True by (simp add: stem_def rest_def)
next
  case False
  have "CHR ''.'' \<in> set (fu @ ''.'' @ after_last_dot name)" by simp
  then show ?thesis using False by metis
qed

text \<open>
  C5, as amended. Past the role and ownership checks of \<open>create_episode\<close>, the text
  tested is the extension of the supplied file name, or the whole name when it has no
  dot and so no extension. When this text, lowered, is none of mp3, wav and ogg, the
  upload fails with status 400 and the store and the upload directory stay as they
  were. When it is one of them, the whole content is written under the key made of the
  generated identifier, a dot and the tested text, and the returned episode refers to
  that key; the key equals the supplied file name exactly when that name has a dot and
  its stem is the generated identifier.
\<close>

theorem upload_extension_gate:
  assumes "u_role current_user = ''podcaster''"
      and "find_one (\<lambda>p. p_id p = podcast_id \<and> p_creator_id p = u_id current_user)
             (db_podcasts w) = Some podcast"
      and "tested = (case spec_extension (filename audio_file) of
                       Some extension \<Rightarrow> extension
                     | None \<Rightarrow> filename audio_file)"
  shows "(lower tested \<notin> {''mp3'', ''wav'', ''ogg''} \<longrightarrow>
            create_episode fu eu now podcast_id title description audio_file current_user w
              = (Inl (400, ''Only MP3, WAV, and OGG files are supported''), w))
       \<and> (lower tested \<in> {''mp3'', ''wav'', ''ogg''} \<longrightarrow>
            (\<exists>episode w'.
               create_episode fu eu now podcast_id title description audio_file current_user w
                 = (Inr episode, w')
             \<and> e_audio_file episode = fu @ ''.'' @ tested
             \<and> upload_dir w' (e_audio_file episode) = Some (content audio_file)
             \<and> (e_audio_file episode = filename audio_file
                  \<longleftrightarrow> CHR ''.'' \<in> set (filename audio_file)
                      \<and> before_last_dot (filename audio_file) = fu)))"
proof -
  have tested: "extension_of (filename audio_file) = tested"
    by (simp add: assms(3) spec_extension_def extension_of_after_last_dot after_last_dot_whole)
  have key: "fu @ ''.'' @ tested = filename audio_file
               \<longleftrightarrow> CHR ''.'' \<in> set (filename audio_file)
                   \<and> before_last_dot (filename audio_file) = fu"
    using key_is_name_iff[of fu "filename audio_file"] tested
    by (simp add: extension_of_after_last_dot)
  show ?thesis
    using key by (auto simp: create_episode_show[OF assms(1,2)] tested)
qed

theorem upload_extension_gate_witness:
  "create_episode ''f1'' ''e2'' 70 ''s1'' ''T'' ''D'' \<lparr>filename = ''track.exe'', content = ''xyz''\<rparr>
       ann world0
     = (Inl (400, ''Only MP3, WAV, and OGG files are supported''), world0)
 \<and> (\<exists>episode w'.
       create_episode ''f1'' ''e2'' 70 ''s1'' ''T'' ''D''
           \<lparr>filename = ''track.MP3'', content = ''xyz''\<rparr> ann world0 = (Inr episode, w')
     \<and> e_audio_file episode = ''f1.MP3''
     \<and> upload_dir w' ''f1.MP3'' = Some ''xyz''
     \<and> e_audio_file episode \<noteq> ''track.MP3'')"
proof -
  have podcaster: "u_role ann = ''podcaster''" by (simp add: ann_def)
  have own: "find_one (\<lambda>p. p_id p = ''s1'' \<and> p_creator_id p = u_id ann) (db_podcasts world0)
               = Some tech_show"
    by (simp add: find_one_def world0_def tech_show_def ann_def)
  have exe: "''exe'' = (case spec_extension (filename \<lparr>filename = ''track.exe'', content = ''xyz''\<rparr>) of
                         Some extension \<Rightarrow> extension
                       | None \<Rightarrow> filename \<lparr>filename = ''track.exe'', content = ''xyz''\<rparr>)"
    by (simp add: spec_extension_def after_last_dot_def)
  have mp3: "''MP3'' = (case spec_extension (filename \<lparr>filename = ''track.MP3'', content = ''xyz''\<rparr>) of
                         Some extension \<Rightarrow> extension
                       | None \<Rightarrow> filename \<lparr>filename = ''track.MP3'', content = ''xyz''\<rparr>)"
    by (simp add: spec_extension_def after_last_dot_def)
  have lowered: "lower ''exe'' = ''exe''" "lower ''MP3'' = ''mp3''"
    by (simp_all add: lower_def lower_char_def)
  have stem: "before_last_dot ''track.MP3'' = ''track''"
    by (simp add: before_last_dot_def)
  show ?thesis
    using lowered stem
      upload_extension_gate[OF podcaster own exe, of "''f1''" "''e2''" 70 "''T''" "''D''"]
      upload_extension_gate[OF podcaster own mp3, of "''f1''" "''e2''" 70 "''T''" "''D''"]
    by auto
qed

text \<open>
  C5 as stated fails in two ways. A file named \<^verbatim>\<open>mp3\<close> has no extension, yet it is
  accepted and stored. And when the supplied name is the generated identifier followed
  by a dot and an accepted extension, the returned key is the supplied name.
\<close>

theorem upload_without_extension_accepted:
  "spec_extension ''mp3'' = None
 \<and> fst (create_episode ''f1'' ''e2'' 70 ''s1'' ''T'' ''D'' \<lparr>filename = ''mp3'', content = ''xyz''\<rparr>
          ann world0)
     = Inr \<lparr>e_id = ''e2'', e_podcast_id = ''s1'', e_title = ''T'', e_description = ''D'',
            e_audio_file = ''f1.mp3'', e_duration = None, e_created_at = 70\<rparr>
 \<and> fst (create_episode ''3f2b8c1e-7a4d-4e6f-9b1a-5c2d8e9f0a1b'' ''e2'' 70 ''s1'' ''T'' ''D''
          \<lparr>filename = ''3f2b8c1e-7a4d-4e6f-9b1a-5c2d8e9f0a1b.mp3'', content = ''xyz''\<rparr> ann world0)
     = Inr \<lparr>e_id = ''e2'', e_podcast_id = ''s1'', e_title = ''T'', e_description = ''D'',
            e_audio_file = ''3f2b8c1e-7a4d-4e6f-9b1a-5c2d8e9f0a1b.mp3'', e_duration = None,
            e_created_at = 70\<rparr>"
  by (simp add: spec_extension_def create_episode_def find_one_def world0_def tech_show_def
      ann_def extension_of_def lower_def lower_char_def Let_def)

section \<open>Search\<close>

lemma match_here_lit: "match_here (map Lit q) s = prefix (lower q) (lower s)"
  by (induction q arbitrary: s) (case_tac s; auto simp: lower_def)+

lemma regex_search_lit: "regex_search (map Lit q) s = sublist (lower q) (lower s)"
proof (induction s)
  case Nil
  then show ?case by (cases q) (simp_all add: match_here_lit lower_def)
next
  case (Cons c cs)
  then show ?case by (cases q) (simp_all add: match_here_lit lower_def sublist_Cons_right)
qed

lemma compile_plain:
  assumes "\<forall>c\<in>set q. c \<notin> set regex_special \<and> c \<noteq> CHR ''.''"
  shows "compile_regex q = Some (map Lit q)"
  using assms by (auto simp: compile_regex_def list_ex_iff)

lemma regex_search_empty: "regex_search [] s"
  by (cases s) simp_all

text \<open>
  C6, as amended. For every query without a character that is special in a regular
  expression, \<open>search\<close> returns exactly the first 50 stored shows whose title,
  description or category contains the query as a substring without regard to letter
  case, and the first 50 stored episodes whose title or description does.
\<close>

theorem search_plain_query:
  assumes "\<forall>c\<in>set q. c \<notin> set regex_special \<and> c \<noteq> CHR ''.''"
  shows "search q w = Some \<lparr>podcasts = take 50 (filter (show_contains q) (db_podcasts w)),
                            episodes = take 50 (filter (episode_contains q) (db_episodes w))\<rparr>"
  by (simp add: search_def compile_plain[OF assms] find_to_list_def regex_search_lit
      show_contains_def episode_contains_def contains_ci_def cong: filter_cong)

theorem search_plain_query_witness:
  "search ''tech'' world0 = Some \<lparr>podcasts = [tech_show], episodes = []\<rparr>"
proof -
  have plain: "\<forall>c\<in>set ''tech''. c \<notin> set regex_special \<and> c \<noteq> CHR ''.''"
    by (simp add: regex_special_def)
  have shows_hit: "filter (show_contains ''tech'') (db_podcasts world0) = [tech_show]"
    by (simp add: show_contains_def contains_ci_def lower_def lower_char_def world0_def
        tech_show_def music_show_def sublist_Cons_right)
  have episodes_hit: "filter (episode_contains ''tech'') (db_episodes world0) = []"
    by (simp add: episode_contains_def contains_ci_def lower_def lower_char_def world0_def
        pilot_def sublist_Cons_right)
  show ?thesis
    using search_plain_query[OF plain, of world0] by (simp add: shows_hit episodes_hit)
qed

text \<open>
  C6 as stated fails: the query is read as a pattern. For the query of one dot every
  stored show and episode is returned, though none of their fields contains a dot.
\<close>

theorem search_dot_is_wildcard:
  "search ''.'' world0 = Some \<lparr>podcasts = [tech_show, music_show], episodes = [pilot]\<rparr>
 \<and> filter (show_contains ''.'') (db_podcasts world0) = []
 \<and> filter (episode_contains ''.'') (db_episodes world0) = []"
  by (simp add: search_def compile_regex_def regex_special_def find_to_list_def
      show_contains_def episode_contains_def contains_ci_def lower_def lower_char_def
      world0_def tech_show_def music_show_def pilot_def sublist_Cons_right)

text \<open>
  C10. The empty query is accepted and every stored show and episode satisfies it:
  \<open>search\<close> returns the first 50 shows and the first 50 episodes of the whole store,
  so neither list is empty when the store holds a show, respectively an episode.
\<close>

theorem search_empty_query:
  "\<exists>r. search [] w = Some r
     \<and> podcasts r = take 50 (db_podcasts w)
     \<and> episodes r = take 50 (db_episodes w)
     \<and> (db_podcasts w \<noteq> [] \<longrightarrow> podcasts r \<noteq> [])
     \<and> (db_episodes w \<noteq> [] \<longrightarrow> episodes r \<noteq> [])"
  by (simp add: search_def compile_regex_def find_to_list_def regex_search_empty)

theorem search_empty_query_witness:
  "\<exists>r. search [] world0 = Some r \<and> podcasts r = [tech_show, music_show] \<and> episodes r = [pilot]"
proof -
  have stored: "db_podcasts world0 = [tech_show, music_show]" "db_episodes world0 = [pilot]"
    by (simp_all add: world0_def)
  show ?thesis
    using search_empty_query[of world0] by (auto simp: stored)
qed

end
